theory Spec2Isabelle
  imports Complex_Main
begin

section \<open>JavaScript values\<close>

text \<open>
  The detection normalizer of the \<^verbatim>\<open>CameraView\<close> component (second half of
  \<^verbatim>\<open>DeviceInfo.jsx\<close>) works on whatever \<^verbatim>\<open>JSON.parse\<close> produced, so the
  model starts with the values of the language.

  A number is an IEEE double. Its special values are kept apart, because the code tests
  for them (\<^verbatim>\<open>Number.isNaN\<close>) and because \<^verbatim>\<open>JSON.parse\<close> yields
  \<^verbatim>\<open>Infinity\<close> for a literal such as \<^verbatim>\<open>1e999\<close>. A finite double is
  idealised as a real: rounding, overflow of a finite operation and the sign of zero are
  not modelled.
\<close>

datatype jsnum = NaN | NInf | Fin real | PInf

datatype jsval =
    JUndef
  | JNull
  | JBool bool
  | JNum jsnum
  | JStr string
  | JArr "jsval list"
  | JObj "(string \<times> jsval) list"

subsection \<open>Arithmetic and comparison of numbers\<close>

fun js_lt :: "jsnum \<Rightarrow> jsnum \<Rightarrow> bool" where
  "js_lt NaN _ = False"
| "js_lt _ NaN = False"
| "js_lt NInf NInf = False"
| "js_lt NInf _ = True"
| "js_lt (Fin a) NInf = False"
| "js_lt (Fin a) (Fin b) = (a < b)"
| "js_lt (Fin a) PInf = True"
| "js_lt PInf _ = False"

definition js_gt :: "jsnum \<Rightarrow> jsnum \<Rightarrow> bool" where
  "js_gt a b = js_lt b a"

definition js_le :: "jsnum \<Rightarrow> jsnum \<Rightarrow> bool" where
  "js_le a b = (a \<noteq> NaN \<and> b \<noteq> NaN \<and> (js_lt a b \<or> a = b))"

text \<open>\<^verbatim>\<open>Math.max\<close> and \<^verbatim>\<open>Math.min\<close> of two numbers: NaN is contagious.\<close>

definition js_max :: "jsnum \<Rightarrow> jsnum \<Rightarrow> jsnum" where
  "js_max a b = (if a = NaN \<or> b = NaN then NaN else if js_lt a b then b else a)"

definition js_min :: "jsnum \<Rightarrow> jsnum \<Rightarrow> jsnum" where
  "js_min a b = (if a = NaN \<or> b = NaN then NaN else if js_lt b a then b else a)"

fun js_sub :: "jsnum \<Rightarrow> jsnum \<Rightarrow> jsnum" where
  "js_sub NaN _ = NaN"
| "js_sub _ NaN = NaN"
| "js_sub (Fin a) (Fin b) = Fin (a - b)"
| "js_sub (Fin a) PInf = NInf"
| "js_sub (Fin a) NInf = PInf"
| "js_sub PInf PInf = NaN"
| "js_sub PInf _ = PInf"
| "js_sub NInf NInf = NaN"
| "js_sub NInf _ = NInf"

text \<open>
  Division. A zero divisor is taken as \<^verbatim>\<open>+0\<close>; \<open>normalizeValue\<close> only divides by a
  number greater than one.
\<close>

fun js_div :: "jsnum \<Rightarrow> jsnum \<Rightarrow> jsnum" where
  "js_div NaN _ = NaN"
| "js_div _ NaN = NaN"
| "js_div (Fin a) (Fin b) =
     (if b = 0 then (if a = 0 then NaN else if 0 < a then PInf else NInf) else Fin (a / b))"
| "js_div (Fin a) PInf = Fin 0"
| "js_div (Fin a) NInf = Fin 0"
| "js_div PInf (Fin b) = (if b < 0 then NInf else PInf)"
| "js_div NInf (Fin b) = (if b < 0 then PInf else NInf)"
| "js_div PInf _ = NaN"
| "js_div NInf _ = NaN"

subsection \<open>Tests and accessors on values\<close>

definition nullish :: "jsval \<Rightarrow> bool" where
  "nullish v = (v = JUndef \<or> v = JNull)"

text \<open>\<^verbatim>\<open>a ?? b\<close>\<close>

definition nc :: "jsval \<Rightarrow> jsval \<Rightarrow> jsval" where
  "nc a b = (if nullish a then b else a)"

fun truthy :: "jsval \<Rightarrow> bool" where
  "truthy JUndef = False"
| "truthy JNull = False"
| "truthy (JBool b) = b"
| "truthy (JNum n) = (n \<noteq> NaN \<and> n \<noteq> Fin 0)"
| "truthy (JStr s) = (s \<noteq> [])"
| "truthy (JArr _) = True"
| "truthy (JObj _) = True"

text \<open>\<^verbatim>\<open>a || b\<close>\<close>

definition js_or :: "jsval \<Rightarrow> jsval \<Rightarrow> jsval" where
  "js_or a b = (if truthy a then a else b)"

text \<open>\<^verbatim>\<open>typeof v === 'number'\<close>\<close>

fun is_number :: "jsval \<Rightarrow> bool" where
  "is_number (JNum _) = True"
| "is_number _ = False"

text \<open>\<^verbatim>\<open>typeof v === 'number' && !Number.isNaN(v)\<close>\<close>

fun is_real_number :: "jsval \<Rightarrow> bool" where
  "is_real_number (JNum n) = (n \<noteq> NaN)"
| "is_real_number _ = False"

text \<open>\<^verbatim>\<open>Array.isArray(v)\<close>\<close>

fun isArray :: "jsval \<Rightarrow> bool" where
  "isArray (JArr _) = True"
| "isArray _ = False"

text \<open>\<^verbatim>\<open>typeof v === 'object' && v !== null\<close>\<close>

fun is_object :: "jsval \<Rightarrow> bool" where
  "is_object (JArr _) = True"
| "is_object (JObj _) = True"
| "is_object _ = False"

text \<open>
  \<^verbatim>\<open>v?.key\<close> for the keys the component reads. None of them is a property of a
  prototype, so only an object parsed from JSON has one; an object is the list of its
  properties, each key once. On \<^verbatim>\<open>null\<close> and
  \<^verbatim>\<open>undefined\<close> the optional chain gives \<^verbatim>\<open>undefined\<close>; a plain
  \<^verbatim>\<open>v.key\<close> throws there, which the functions below write out where the source
  has no guard.
\<close>

fun get_prop :: "jsval \<Rightarrow> string \<Rightarrow> jsval" where
  "get_prop (JObj kvs) k = (case map_of kvs k of Some v \<Rightarrow> v | None \<Rightarrow> JUndef)"
| "get_prop _ k = JUndef"

definition digit :: "nat \<Rightarrow> char" where
  "digit n = ''0123456789'' ! n"

fun show_nat :: "nat \<Rightarrow> string" where
  "show_nat n = (if n < 10 then [digit n] else show_nat (n div 10) @ [digit (n mod 10)])"

declare show_nat.simps [simp del]

text \<open>
  \<^verbatim>\<open>v?.[i]\<close> for an index \<open>i\<close>: an element of an array, the property named by the
  decimal numeral of an object, a character of a string.
\<close>

fun at_index :: "jsval \<Rightarrow> nat \<Rightarrow> jsval" where
  "at_index (JArr xs) i = (if i < length xs then xs ! i else JUndef)"
| "at_index (JObj kvs) i = get_prop (JObj kvs) (show_nat i)"
| "at_index (JStr s) i = (if i < length s then JStr [s ! i] else JUndef)"
| "at_index _ i = JUndef"

text \<open>The elements of an array, for \<^verbatim>\<open>.length\<close>, \<^verbatim>\<open>.slice\<close> and \<^verbatim>\<open>.map\<close>.\<close>

fun elements :: "jsval \<Rightarrow> jsval list" where
  "elements (JArr xs) = xs"
| "elements _ = []"

datatype exn = TypeError

text \<open>
  The conversion of an object to a primitive. A value parsed from JSON holds no function,
  so an object with an own property \<^verbatim>\<open>toString\<close> has no callable \<^verbatim>\<open>toString\<close>,
  and the \<^verbatim>\<open>valueOf\<close> it has or inherits does not give a primitive: the conversion
  throws a \<^verbatim>\<open>TypeError\<close>. An array is converted through \<^verbatim>\<open>join\<close>, which converts
  its elements, so it throws when one of them does.
\<close>

fun unconvertible :: "jsval \<Rightarrow> bool" where
  "unconvertible (JObj kvs) = (map_of kvs ''toString'' \<noteq> None)"
| "unconvertible (JArr xs) = (\<exists>v \<in> set xs. unconvertible v)"
| "unconvertible _ = False"

text \<open>
  \<^verbatim>\<open>ToNumber\<close>, as \<^verbatim>\<open>Math.max\<close> and the operator \<^verbatim>\<open>-\<close> apply it to an
  operand. The rule for \<^verbatim>\<open>undefined\<close>, \<^verbatim>\<open>null\<close>, booleans, numbers and objects
  is written out (an object that converts at all converts to
  \<^verbatim>\<open>"[object Object]"\<close>, which is no number). The number a string or the joined
  elements of an array stand for comes from the language's numeric-literal parser and
  number printer; it is taken as the parameter \<open>coerce\<close>.
\<close>

fun to_number :: "(jsval \<Rightarrow> jsnum) \<Rightarrow> jsval \<Rightarrow> exn + jsnum" where
  "to_number coerce JUndef = Inr NaN"
| "to_number coerce JNull = Inr (Fin 0)"
| "to_number coerce (JBool b) = Inr (if b then Fin 1 else Fin 0)"
| "to_number coerce (JNum n) = Inr n"
| "to_number coerce (JStr s) = Inr (coerce (JStr s))"
| "to_number coerce (JArr xs) =
     (if unconvertible (JArr xs) then Inl TypeError else Inr (coerce (JArr xs)))"
| "to_number coerce (JObj kvs) =
     (if unconvertible (JObj kvs) then Inl TypeError else Inr NaN)"

text \<open>\<^verbatim>\<open>Math.max(v, 0)\<close>\<close>

definition max_with_zero :: "(jsval \<Rightarrow> jsnum) \<Rightarrow> jsval \<Rightarrow> exn + jsval" where
  "max_with_zero coerce v =
     (case to_number coerce v of
        Inl e \<Rightarrow> Inl e
      | Inr n \<Rightarrow> Inr (JNum (js_max n (Fin 0))))"

text \<open>\<^verbatim>\<open>a - b\<close>\<close>

definition js_minus :: "(jsval \<Rightarrow> jsnum) \<Rightarrow> jsval \<Rightarrow> jsval \<Rightarrow> exn + jsval" where
  "js_minus coerce a b =
     (case to_number coerce a of
        Inl e \<Rightarrow> Inl e
      | Inr m \<Rightarrow>
          (case to_number coerce b of
             Inl e \<Rightarrow> Inl e
           | Inr n \<Rightarrow> Inr (JNum (js_sub m n))))"

text \<open>
  \<^verbatim>\<open>xs.map(f).filter(Boolean)\<close> for a callback that returns \<^verbatim>\<open>null\<close> (here
  \<open>None\<close>) or an object: an exception of the callback ends the whole call.
\<close>

fun map_then_filter :: "('a \<Rightarrow> exn + 'b option) \<Rightarrow> 'a list \<Rightarrow> exn + 'b list" where
  "map_then_filter f [] = Inr []"
| "map_then_filter f (a # as) =
     (case f a of
        Inl e \<Rightarrow> Inl e
      | Inr r \<Rightarrow>
          (case map_then_filter f as of
             Inl e \<Rightarrow> Inl e
           | Inr rs \<Rightarrow> Inr (case r of None \<Rightarrow> rs | Some d \<Rightarrow> d # rs)))"

section \<open>The detection normalizer\<close>

record 'a frame =
  width :: 'a
  height :: 'a

record 'a bbox = "'a frame" +
  x :: 'a
  y :: 'a

record detection =
  label :: jsval
  confidence :: jsval
  box :: "jsnum bbox"

definition DEFAULT_FRAME_DIMENSION :: jsnum where
  "DEFAULT_FRAME_DIMENSION = Fin 1"

definition inferFrameSize :: "jsval \<Rightarrow> jsval frame" where
  "inferFrameSize source =
     (let resolution = get_prop source ''resolution'' in
      if isArray resolution \<and> 2 \<le> length (elements resolution)
      then \<lparr>width = at_index resolution 0, height = at_index resolution 1\<rparr>
      else \<lparr>width = nc (get_prop source ''frame_width'') (nc (get_prop source ''image_width'')
                       (nc (get_prop source ''width'') (JNum DEFAULT_FRAME_DIMENSION))),
            height = nc (get_prop source ''frame_height'') (nc (get_prop source ''image_height'')
                       (nc (get_prop source ''height'') (JNum DEFAULT_FRAME_DIMENSION)))\<rparr>)"

text \<open>The result \<^verbatim>\<open>null\<close> of \<open>normalizeValue\<close> is \<open>None\<close>.\<close>

definition normalizeValue :: "jsval \<Rightarrow> jsval \<Rightarrow> jsnum option" where
  "normalizeValue val dimension =
     (case val of
        JNum v \<Rightarrow>
          if v = NaN then None
          else
            let safeDimension =
                  (case dimension of
                     JNum d \<Rightarrow> if js_gt d (Fin 0) then d else DEFAULT_FRAME_DIMENSION
                   | _ \<Rightarrow> DEFAULT_FRAME_DIMENSION)
            in if js_gt safeDimension (Fin 1)
               then Some (js_min (js_max (js_div v safeDimension) (Fin 0)) (Fin 1))
               else if js_le v (Fin 1)
               then Some (js_min (js_max v (Fin 0)) (Fin 1))
               else Some (js_min (js_max v (Fin 0)) (Fin 1))
      | _ \<Rightarrow> None)"

text \<open>
  \<open>normalizeBBox\<close>: \<open>x\<close> and \<open>y\<close> go to \<open>normalizeValue\<close> as they are, \<open>width\<close> and
  \<open>height\<close> through \<^verbatim>\<open>Math.max(., 0)\<close> first, which converts its argument to a
  number and throws when it cannot.
\<close>

definition normalizeBBox ::
  "(jsval \<Rightarrow> jsnum) \<Rightarrow> jsval bbox option \<Rightarrow> jsval frame \<Rightarrow> exn + jsnum bbox option" where
  "normalizeBBox coerce bbox frameSize =
     (case bbox of
        None \<Rightarrow> Inr None
      | Some b \<Rightarrow>
          (case max_with_zero coerce (width b) of
             Inl e \<Rightarrow> Inl e
           | Inr w \<Rightarrow>
               (case max_with_zero coerce (height b) of
                  Inl e \<Rightarrow> Inl e
                | Inr h \<Rightarrow>
                    Inr (case (normalizeValue (x b) (width frameSize),
                               normalizeValue (y b) (height frameSize),
                               normalizeValue w (width frameSize),
                               normalizeValue h (height frameSize))
                         of (Some nx, Some ny, Some nw, Some nh) \<Rightarrow>
                              Some \<lparr>width = nw, height = nh, x = nx, y = ny\<rparr>
                          | _ \<Rightarrow> None))))"

text \<open>
  \<open>extractBoxFromCandidate\<close>. The four values it returns are numbers in every branch;
  they stay values of the language because \<open>normalizeBBox\<close> also receives boxes that
  were not checked. The two subtractions convert their operands and can throw;
  \<open>width0\<close> and \<open>height0\<close> are \<^verbatim>\<open>width\<close> and \<^verbatim>\<open>height\<close> as declared,
  \<open>width1\<close> and \<open>height1\<close> after the two assignments.
\<close>

definition extractBoxFromCandidate ::
  "(jsval \<Rightarrow> jsnum) \<Rightarrow> jsval \<Rightarrow> exn + jsval bbox option" where
  "extractBoxFromCandidate coerce candidate =
     (if \<not> truthy candidate then Inr None
      else
        let source = nc (get_prop candidate ''bbox'') (nc (get_prop candidate ''box'')
                       (nc (get_prop candidate ''rect'') (nc (get_prop candidate ''region'') candidate)))
        in if isArray source then
             (if 4 \<le> length (elements source) \<and> list_all is_number (take 4 (elements source))
              then Inr (Some \<lparr>width = at_index source 2, height = at_index source 3,
                              x = at_index source 0, y = at_index source 1\<rparr>)
              else Inr None)
           else if is_object source then
             (let x = nc (get_prop source ''x'') (nc (get_prop source ''left'')
                        (nc (get_prop source ''x_min'') (nc (get_prop source ''x1'')
                        (nc (get_prop source ''cx'') (get_prop source ''center_x'')))));
                  y = nc (get_prop source ''y'') (nc (get_prop source ''top'')
                        (nc (get_prop source ''y_min'') (nc (get_prop source ''y1'')
                        (nc (get_prop source ''cy'') (get_prop source ''center_y'')))));
                  width0 = nc (get_prop source ''width'') (get_prop source ''w'');
                  height0 = nc (get_prop source ''height'') (get_prop source ''h'');
                  x2 = nc (get_prop source ''x2'') (nc (get_prop source ''x_max'') (get_prop source ''right''));
                  y2 = nc (get_prop source ''y2'') (nc (get_prop source ''y_max'') (get_prop source ''bottom''))
              in case (if \<not> nullish x \<and> nullish width0 \<and> \<not> nullish x2
                       then js_minus coerce x2 x else Inr width0) of
                   Inl e \<Rightarrow> Inl e
                 | Inr width1 \<Rightarrow>
                     (case (if \<not> nullish y \<and> nullish height0 \<and> \<not> nullish y2
                            then js_minus coerce y2 y else Inr height0) of
                        Inl e \<Rightarrow> Inl e
                      | Inr height1 \<Rightarrow>
                          Inr (if list_all is_real_number [x, y, width1, height1]
                               then Some \<lparr>width = width1, height = height1, x = x, y = y\<rparr>
                               else None)))
           else Inr None)"

text \<open>
  The callback of \<^verbatim>\<open>boxes.map\<close> in \<open>buildDetectionsFromInference\<close>; \<open>None\<close> is its
  \<^verbatim>\<open>null\<close>, and \<open>b\<close> is the entry the source calls \<^verbatim>\<open>box\<close>.
\<close>

definition inferenceDetection ::
  "(jsval \<Rightarrow> jsnum) \<Rightarrow> jsval \<Rightarrow> jsval frame \<Rightarrow> nat \<Rightarrow> jsval \<Rightarrow> exn + detection option" where
  "inferenceDetection coerce inference frameSize index b =
     (case (if isArray b \<and> 4 \<le> length (elements b)
            then Inr (Some \<lparr>width = at_index b 2, height = at_index b 3,
                            x = at_index b 0, y = at_index b 1\<rparr>)
            else if is_object b then extractBoxFromCandidate coerce b
            else Inr None) of
        Inl e \<Rightarrow> Inl e
      | Inr bbox \<Rightarrow>
          (case normalizeBBox coerce bbox frameSize of
             Inl e \<Rightarrow> Inl e
           | Inr None \<Rightarrow> Inr None
           | Inr (Some normalizedBox) \<Rightarrow>
               Inr (Some
                 \<lparr>label = js_or (at_index (get_prop inference ''labels'') index)
                            (js_or (get_prop b ''label'')
                            (js_or (get_prop b ''name'')
                                   (JStr (''object-'' @ show_nat (index + 1))))),
                  confidence = (if is_number (at_index b 4) then at_index b 4
                                else nc (get_prop b ''confidence'') (nc (get_prop b ''score'') JNull)),
                  box = normalizedBox\<rparr>)))"

text \<open>
  \<open>buildDetectionsFromInference\<close>. The default parameter replaces \<^verbatim>\<open>undefined\<close>
  only, so \<^verbatim>\<open>inference.boxes\<close> throws on \<^verbatim>\<open>null\<close>.
\<close>

definition buildDetectionsFromInference ::
  "(jsval \<Rightarrow> jsnum) \<Rightarrow> jsval \<Rightarrow> exn + detection list" where
  "buildDetectionsFromInference coerce inference0 =
     (let inference = (if inference0 = JUndef then JObj [] else inference0)
      in if inference = JNull then Inl TypeError
         else
           let boxes = (if isArray (get_prop inference ''boxes'')
                        then Some (elements (get_prop inference ''boxes'')) else None)
           in case boxes of
                None \<Rightarrow> Inr []
              | Some bs \<Rightarrow>
                  if length bs = 0 then Inr []
                  else
                    let frameSize = inferFrameSize inference
                    in map_then_filter
                         (\<lambda>(index, b). inferenceDetection coerce inference frameSize index b)
                         (enumerate 0 bs))"

text \<open>The callback of \<^verbatim>\<open>candidates.map\<close> in \<open>parseDetections\<close>.\<close>

definition candidateDetection ::
  "(jsval \<Rightarrow> jsnum) \<Rightarrow> jsval frame \<Rightarrow> nat \<Rightarrow> jsval \<Rightarrow> exn + detection option" where
  "candidateDetection coerce frameSize index candidate =
     (case extractBoxFromCandidate coerce candidate of
        Inl e \<Rightarrow> Inl e
      | Inr bbox \<Rightarrow>
          (case normalizeBBox coerce bbox frameSize of
             Inl e \<Rightarrow> Inl e
           | Inr None \<Rightarrow> Inr None
           | Inr (Some normalizedBox) \<Rightarrow>
               Inr (Some
                 \<lparr>label = nc (get_prop candidate ''label'') (nc (get_prop candidate ''name'')
                            (nc (get_prop candidate ''class'') (nc (get_prop candidate ''category'')
                                (JStr (''object-'' @ show_nat (index + 1)))))),
                  confidence = nc (get_prop candidate ''confidence'') (nc (get_prop candidate ''score'')
                            (nc (get_prop candidate ''probability'')
                            (nc (get_prop candidate ''confidence_score'') JNull))),
                  box = normalizedBox\<rparr>)))"

text \<open>The list \<open>parseDetections\<close> maps over when the boxes give nothing.\<close>

definition candidates :: "jsval \<Rightarrow> jsval list" where
  "candidates inferenceSource =
     (if isArray inferenceSource then elements inferenceSource
      else if isArray (get_prop inferenceSource ''detections'')
      then elements (get_prop inferenceSource ''detections'')
      else if isArray (get_prop inferenceSource ''objects'')
      then elements (get_prop inferenceSource ''objects'')
      else [])"

definition parseDetections :: "(jsval \<Rightarrow> jsnum) \<Rightarrow> jsval \<Rightarrow> exn + detection list" where
  "parseDetections coerce inferenceSource =
     (if \<not> truthy inferenceSource then Inr []
      else
        case buildDetectionsFromInference coerce inferenceSource of
          Inl e \<Rightarrow> Inl e
        | Inr inferenceObjects \<Rightarrow>
            if length inferenceObjects \<noteq> 0 then Inr inferenceObjects
            else
              let frameSize = inferFrameSize inferenceSource
              in map_then_filter
                   (\<lambda>(index, candidate). candidateDetection coerce frameSize index candidate)
                   (enumerate 0 (candidates inferenceSource)))"

text \<open>
  The source ends \<open>parseDetections\<close> early when \<open>candidates\<close> is not an array; every
  branch above gives an array, so the test never fires and \<open>candidates\<close> is a list.
\<close>

section \<open>The viewer session\<close>

text \<open>
  The connection effect of \<^verbatim>\<open>CameraView\<close> (and of \<^verbatim>\<open>VideoStream\<close>, which differs in
  its log lines and error text only) as a transition system. The state holds what the
  closures of the effect share: every \<^verbatim>\<open>WebSocket\<close> made so far with its
  \<^verbatim>\<open>readyState\<close>, \<^verbatim>\<open>wsRef.current\<close> as an index into them, the callbacks handed to
  \<^verbatim>\<open>setTimeout\<close> that have not run yet (each is \<open>connectWebSocket\<close>; the number is
  its delay in milliseconds), and the \<open>connected\<close> and \<open>error\<close> state of the component.
  Frame messages change none of these and are left out.
\<close>

datatype readyState = CONNECTING | OPEN | CLOSING | CLOSED

record session =
  sockets :: "readyState list"
  wsRef :: "nat option"
  timers :: "nat list"
  connected :: bool
  error :: "string option"

text \<open>
  What happens to a session: the effect runs, a socket fires \<^verbatim>\<open>onopen\<close>,
  \<^verbatim>\<open>onclose\<close> or \<^verbatim>\<open>onerror\<close>, a pending timeout fires, the cleanup of the effect
  runs.
\<close>

datatype event = Mount | Onopen nat | Onclose nat | Onerror nat | Timeout nat | Unmount

definition initial :: session where
  "initial = \<lparr>sockets = [], wsRef = None, timers = [], connected = False, error = None\<rparr>"

definition connectWebSocket :: "session \<Rightarrow> session" where
  "connectWebSocket s = s\<lparr>sockets := sockets s @ [CONNECTING], wsRef := Some (length (sockets s))\<rparr>"

text \<open>\<^verbatim>\<open>ws.close()\<close> starts the closing handshake; the close event comes later.\<close>

fun close :: "readyState \<Rightarrow> readyState" where
  "close CONNECTING = CLOSING"
| "close OPEN = CLOSING"
| "close CLOSING = CLOSING"
| "close CLOSED = CLOSED"

fun step :: "session \<Rightarrow> event \<Rightarrow> session" where
  "step s Mount = connectWebSocket s"
| "step s (Onopen i) =
     (if i < length (sockets s) \<and> sockets s ! i = CONNECTING
      then s\<lparr>sockets := (sockets s)[i := OPEN], connected := True, error := None\<rparr>
      else s)"
| "step s (Onclose i) =
     (if i < length (sockets s) \<and> sockets s ! i \<noteq> CLOSED
      then s\<lparr>sockets := (sockets s)[i := CLOSED], connected := False,
             timers := timers s @ [3000]\<rparr>
      else s)"
| "step s (Onerror i) =
     (if i < length (sockets s) then s\<lparr>error := Some ''Connection error''\<rparr> else s)"
| "step s (Timeout k) =
     (if k < length (timers s)
      then connectWebSocket (s\<lparr>timers := take k (timers s) @ drop (Suc k) (timers s)\<rparr>)
      else s)"
| "step s Unmount =
     (case wsRef s of
        None \<Rightarrow> s
      | Some i \<Rightarrow> s\<lparr>sockets := (sockets s)[i := close (sockets s ! i)]\<rparr>)"

definition run :: "session \<Rightarrow> event list \<Rightarrow> session" where
  "run s evs = foldl step s evs"

section \<open>Notions the properties are stated with\<close>

text \<open>A number of the interval \<open>[0,1]\<close>.\<close>

definition in_unit :: "jsnum \<Rightarrow> bool" where
  "in_unit v = (js_le (Fin 0) v \<and> js_le v (Fin 1))"

fun finite_num :: "jsnum \<Rightarrow> bool" where
  "finite_num (Fin _) = True"
| "finite_num _ = False"

text \<open>\<^verbatim>\<open>Math.min(Math.max(v, 0), 1)\<close>\<close>

definition clamp01 :: "jsnum \<Rightarrow> jsnum" where
  "clamp01 v = js_min (js_max v (Fin 0)) (Fin 1)"

text \<open>
  The box the specification states for an entry \<open>[a, b, c, d]\<close> under the resolution
  \<open>[W, H]\<close>: \<open>(a/W, b/H, c/W, d/H)\<close>, each component clamped to \<open>[0,1]\<close>.
\<close>

definition scaled_box :: "jsnum \<Rightarrow> jsnum \<Rightarrow> jsnum \<Rightarrow> jsnum \<Rightarrow> jsnum \<Rightarrow> jsnum \<Rightarrow> jsnum bbox" where
  "scaled_box W H a b c d =
     \<lparr>width = clamp01 (js_div c W), height = clamp01 (js_div d H),
      x = clamp01 (js_div a W), y = clamp01 (js_div b H)\<rparr>"


text \<open>The value \<open>normalizeValue\<close> binds to \<open>safeDimension\<close>, as a function of the dimension.\<close>

definition safe_dimension :: "jsval \<Rightarrow> jsnum" where
  "safe_dimension d =
     (case d of JNum n \<Rightarrow> if js_gt n (Fin 0) then n else Fin 1 | _ \<Rightarrow> Fin 1)"

text \<open>
  The closed examples below hold no string or array at a place where the language
  converts to a number, so the parameter is never asked there; this one stands in for it.
\<close>

definition coerce_nan :: "jsval \<Rightarrow> jsnum" where
  "coerce_nan v = NaN"

text \<open>Rounding to three decimals, half up.\<close>

definition round3 :: "jsnum \<Rightarrow> jsnum" where
  "round3 v = (case v of Fin r \<Rightarrow> Fin (of_int \<lfloor>r * 1000 + 1 / 2\<rfloor> / 1000) | _ \<Rightarrow> v)"

section \<open>Clamping and scaling of one coordinate\<close>

lemmas normalizer_defs =
  parseDetections_def buildDetectionsFromInference_def inferenceDetection_def
  candidateDetection_def candidates_def extractBoxFromCandidate_def
  normalizeBBox_def normalizeValue_def inferFrameSize_def
  max_with_zero_def js_minus_def
  DEFAULT_FRAME_DIMENSION_def nc_def nullish_def js_or_def
  js_gt_def js_le_def js_max_def js_min_def
  enumerate_eq_zip Let_def show_nat.simps digit_def

lemma in_unit_iff: "in_unit v \<longleftrightarrow> (\<exists>r. v = Fin r \<and> 0 \<le> r \<and> r \<le> 1)"
  by (cases v) (auto simp: in_unit_def js_le_def)

lemma clamp01_Fin: "clamp01 (Fin r) = Fin (min (max r 0) 1)"
  by (auto simp: clamp01_def js_max_def js_min_def)

lemma clamp01_special: "clamp01 PInf = Fin 1" "clamp01 NInf = Fin 0" "clamp01 NaN = NaN"
  by (auto simp: clamp01_def js_max_def js_min_def)

lemma clamp01_in_unit: "v \<noteq> NaN \<Longrightarrow> in_unit (clamp01 v)"
  by (cases v) (auto simp: clamp01_Fin clamp01_special in_unit_iff)

lemma clamp01_id: "in_unit v \<Longrightarrow> clamp01 v = v"
  by (auto simp: in_unit_iff clamp01_Fin)

lemma js_max_not_NaN: "c \<noteq> NaN \<Longrightarrow> js_max c (Fin 0) \<noteq> NaN"
  by (simp add: js_max_def)

lemma js_max_unit: "in_unit v \<Longrightarrow> js_max v (Fin 0) = v"
  by (auto simp: in_unit_iff js_max_def)

lemma max_with_zero_JNum: "max_with_zero coerce (JNum n) = Inr (JNum (js_max n (Fin 0)))"
  by (simp add: max_with_zero_def)

lemma max_with_zero_is_number: "max_with_zero coerce v = Inr w \<Longrightarrow> is_number w"
  by (auto simp: max_with_zero_def split: sum.splits)

lemma normalizeValue_JNum:
  "normalizeValue (JNum v) d =
     (if v = NaN then None
      else Some (clamp01 (if js_gt (safe_dimension d) (Fin 1)
                          then js_div v (safe_dimension d) else v)))"
  by (cases d)
     (simp_all add: normalizeValue_def safe_dimension_def clamp01_def
        DEFAULT_FRAME_DIMENSION_def Let_def)

lemma normalizeValue_not_number: "\<not> is_number v \<Longrightarrow> normalizeValue v d = None"
  by (cases v) (simp_all add: normalizeValue_def)

lemma normalizeValue_Some_iff: "(\<exists>r. normalizeValue v d = Some r) \<longleftrightarrow> is_real_number v"
  by (cases v) (simp_all add: normalizeValue_JNum normalizeValue_not_number)

lemma js_div_not_NaN:
  "v \<noteq> NaN \<Longrightarrow> js_gt n (Fin 1) \<Longrightarrow> n \<noteq> PInf \<Longrightarrow> js_div v n \<noteq> NaN"
  by (cases v; cases n) (auto simp: js_gt_def)

lemma safe_dimension_not_PInf: "d \<noteq> JNum PInf \<Longrightarrow> safe_dimension d \<noteq> PInf"
  by (auto simp: safe_dimension_def split: jsval.splits)

lemma normalizeValue_in_unit:
  assumes "normalizeValue v d = Some r" and "d \<noteq> JNum PInf"
  shows "in_unit r"
proof (cases v)
  case (JNum n)
  with assms(1) have n: "n \<noteq> NaN"
    and r: "r = clamp01 (if js_gt (safe_dimension d) (Fin 1)
                         then js_div n (safe_dimension d) else n)"
    by (auto simp: normalizeValue_JNum split: if_splits)
  have "(if js_gt (safe_dimension d) (Fin 1) then js_div n (safe_dimension d) else n) \<noteq> NaN"
    using n js_div_not_NaN [OF n _ safe_dimension_not_PInf [OF assms(2)]] by auto
  then show ?thesis unfolding r by (rule clamp01_in_unit)
qed (use assms(1) in \<open>simp_all add: normalizeValue_def\<close>)

lemma normalizeValue_scaled:
  assumes "js_gt W (Fin 1)" and "v \<noteq> NaN"
  shows "normalizeValue (JNum v) (JNum W) = Some (clamp01 (js_div v W))"
proof -
  from assms(1) have "js_gt W (Fin 0)" by (cases W) (auto simp: js_gt_def)
  with assms show ?thesis by (simp add: normalizeValue_JNum safe_dimension_def)
qed

lemma normalizeValue_unit: "in_unit v \<Longrightarrow> normalizeValue (JNum v) (JNum (Fin 1)) = Some v"
  by (auto simp: normalizeValue_JNum safe_dimension_def js_gt_def clamp01_id in_unit_iff)

lemma normalizeValue_negative_clamped:
  assumes "js_lt n (Fin 0)"
  shows "normalizeValue (JNum (js_max n (Fin 0))) d = Some (Fin 0)"
proof -
  from assms have m: "js_max n (Fin 0) = Fin 0" by (cases n) (auto simp: js_max_def)
  have "js_gt V (Fin 1) \<Longrightarrow> js_div (Fin 0) V = Fin 0" for V
    by (cases V) (auto simp: js_gt_def)
  then show ?thesis
    unfolding m by (auto simp: normalizeValue_JNum clamp01_Fin)
qed

lemma clamp_div_max:
  assumes "js_gt W (Fin 1)" and "c \<noteq> NaN" and "finite_num c \<or> finite_num W"
  shows "clamp01 (js_div (js_max c (Fin 0)) W) = clamp01 (js_div c W)"
  using assms
  by (cases c; cases W)
     (auto simp: js_gt_def js_max_def clamp01_Fin clamp01_special max_def min_def
           divide_le_0_iff divide_less_0_iff zero_le_divide_iff not_le not_less)

section \<open>Boxes\<close>

lemma normalizeBBox_Some:
  "normalizeBBox coerce (Some b) fs = Inr (Some nb) \<longleftrightarrow>
     (\<exists>w h. max_with_zero coerce (width b) = Inr w \<and> max_with_zero coerce (height b) = Inr h \<and>
        normalizeValue (x b) (width fs) = Some (x nb) \<and>
        normalizeValue (y b) (height fs) = Some (y nb) \<and>
        normalizeValue w (width fs) = Some (width nb) \<and>
        normalizeValue h (height fs) = Some (height nb))"
  by (cases nb) (auto simp: normalizeBBox_def split: option.splits sum.splits)

lemma normalizeBBox_numbers:
  "normalizeBBox coerce (Some \<lparr>width = JNum w, height = JNum h, x = vx, y = vy\<rparr>) fs =
     Inr (case (normalizeValue vx (width fs), normalizeValue vy (height fs),
                normalizeValue (JNum (js_max w (Fin 0))) (width fs),
                normalizeValue (JNum (js_max h (Fin 0))) (height fs))
          of (Some nx, Some ny, Some nw, Some nh) \<Rightarrow>
               Some \<lparr>width = nw, height = nh, x = nx, y = ny\<rparr>
           | _ \<Rightarrow> None)"
  by (simp add: normalizeBBox_def max_with_zero_JNum)

lemma normalizeBBox_in_unit:
  assumes "normalizeBBox coerce bb fs = Inr (Some nb)"
    and "width fs \<noteq> JNum PInf" and "height fs \<noteq> JNum PInf"
  shows "in_unit (x nb) \<and> in_unit (y nb) \<and> in_unit (width nb) \<and> in_unit (height nb)"
proof -
  from assms(1) obtain b where "bb = Some b" by (cases bb) (auto simp: normalizeBBox_def)
  with assms(1) obtain w h where "normalizeValue (x b) (width fs) = Some (x nb)"
    "normalizeValue (y b) (height fs) = Some (y nb)"
    "normalizeValue w (width fs) = Some (width nb)"
    "normalizeValue h (height fs) = Some (height nb)"
    by (auto simp: normalizeBBox_Some)
  then show ?thesis
    using normalizeValue_in_unit assms(2,3) by blast
qed

lemma normalizeBBox_scaled:
  assumes "js_gt W (Fin 1)" "js_gt H (Fin 1)"
    and "a \<noteq> NaN" "b \<noteq> NaN" "c \<noteq> NaN" "d \<noteq> NaN"
    and "finite_num c \<or> finite_num W" "finite_num d \<or> finite_num H"
  shows "normalizeBBox coerce (Some \<lparr>width = JNum c, height = JNum d, x = JNum a, y = JNum b\<rparr>)
           \<lparr>width = JNum W, height = JNum H\<rparr> = Inr (Some (scaled_box W H a b c d))"
  using assms
  by (simp add: normalizeBBox_numbers normalizeValue_scaled js_max_not_NaN clamp_div_max
        scaled_box_def)

lemma normalizeBBox_unit:
  assumes "in_unit a" "in_unit b" "in_unit w" "in_unit h"
  shows "normalizeBBox coerce (Some \<lparr>width = JNum w, height = JNum h, x = JNum a, y = JNum b\<rparr>)
           \<lparr>width = JNum (Fin 1), height = JNum (Fin 1)\<rparr>
         = Inr (Some \<lparr>width = w, height = h, x = a, y = b\<rparr>)"
  using assms by (simp add: normalizeBBox_numbers normalizeValue_unit js_max_unit)

lemma inferFrameSize_resolution:
  "get_prop p ''resolution'' = JArr (w # h # rest) \<Longrightarrow>
     inferFrameSize p = \<lparr>width = w, height = h\<rparr>"
  by (simp add: inferFrameSize_def)

lemma inferFrameSize_default:
  assumes "\<forall>k \<in> {''resolution'', ''frame_width'', ''image_width'', ''width'',
                  ''frame_height'', ''image_height'', ''height''}. nullish (get_prop p k)"
  shows "inferFrameSize p = \<lparr>width = JNum (Fin 1), height = JNum (Fin 1)\<rparr>"
proof -
  from assms have "nullish (get_prop p ''resolution'')" by simp
  then have "\<not> isArray (get_prop p ''resolution'')" by (auto simp: nullish_def)
  with assms show ?thesis
    by (simp add: inferFrameSize_def nc_def DEFAULT_FRAME_DIMENSION_def)
qed

text \<open>
  What the callback of \<^verbatim>\<open>boxes.map\<close> takes as the box of an entry is what
  \<open>extractBoxFromCandidate\<close> gives for it, whenever that gives a box.
\<close>

lemma extract_Some_shape:
  assumes "extractBoxFromCandidate coerce e = Inr (Some b)"
  shows "is_object e"
  using assms
  by (cases e) (auto simp: extractBoxFromCandidate_def nc_def nullish_def Let_def split: if_splits)

lemma extract_array:
  assumes "isArray e"
  shows "extractBoxFromCandidate coerce e =
           (if 4 \<le> length (elements e) \<and> list_all is_number (take 4 (elements e))
            then Inr (Some \<lparr>width = at_index e 2, height = at_index e 3,
                            x = at_index e 0, y = at_index e 1\<rparr>)
            else Inr None)"
  using assms by (cases e) (auto simp: extractBoxFromCandidate_def nc_def nullish_def Let_def)

lemma inference_bbox_is_extracted:
  assumes "extractBoxFromCandidate coerce e = Inr (Some b)"
  shows "(if isArray e \<and> 4 \<le> length (elements e)
            then Inr (Some \<lparr>width = at_index e 2, height = at_index e 3,
                            x = at_index e 0, y = at_index e 1\<rparr>)
            else if is_object e then extractBoxFromCandidate coerce e
            else Inr None) = Inr (Some b)"
proof (cases "isArray e")
  case True
  with assms show ?thesis by (auto simp: extract_array split: if_splits)
next
  case False
  with assms extract_Some_shape [OF assms] show ?thesis by simp
qed

section \<open>The list a payload gives\<close>

lemma map_then_filter_length:
  "map_then_filter f xs = Inr ds \<Longrightarrow> length ds \<le> length xs"
  by (induction xs arbitrary: ds) (fastforce split: sum.splits option.splits)+

lemma map_then_filter_all_return:
  "map_then_filter f xs = Inr ds \<Longrightarrow> a \<in> set xs \<Longrightarrow> \<exists>r. f a = Inr r"
  by (induction xs arbitrary: ds) (auto split: sum.splits)

lemma map_then_filter_member:
  "map_then_filter f xs = Inr ds \<Longrightarrow> d \<in> set ds \<Longrightarrow> \<exists>a \<in> set xs. f a = Inr (Some d)"
  by (induction xs arbitrary: ds) (auto split: sum.splits option.splits)

lemma map_then_filter_kept:
  "map_then_filter f xs = Inr ds \<Longrightarrow> a \<in> set xs \<Longrightarrow> f a = Inr (Some d) \<Longrightarrow> d \<in> set ds"
  by (induction xs arbitrary: ds) (auto split: sum.splits option.splits)

lemma map_then_filter_throws:
  "a \<in> set xs \<Longrightarrow> f a = Inl e \<Longrightarrow> \<exists>e'. map_then_filter f xs = Inl e'"
  by (induction xs) (auto split: sum.splits)



lemma truthy_not_nullish: "truthy v \<Longrightarrow> v \<noteq> JUndef \<and> v \<noteq> JNull"
  by (cases v) simp_all

lemma falsy_no_entries:
  "\<not> truthy p \<Longrightarrow> elements (get_prop p ''boxes'') = [] \<and> candidates p = []"
  by (cases p) (simp_all add: candidates_def)

lemma buildDetections_result:
  assumes "truthy p"
  shows "buildDetectionsFromInference coerce p =
           map_then_filter
             (\<lambda>(index, b). inferenceDetection coerce p (inferFrameSize p) index b)
             (enumerate 0 (elements (get_prop p ''boxes'')))"
proof -
  from assms have "p \<noteq> JUndef" "p \<noteq> JNull" by (simp_all add: truthy_not_nullish)
  then show ?thesis
    by (cases "get_prop p ''boxes''")
       (auto simp: buildDetectionsFromInference_def Let_def)
qed

text \<open>
  A call of \<open>parseDetections\<close> that returns has gone one of two ways: the boxes gave a
  non-empty list, which is the result, or they gave nothing and the result is what the
  candidates give.
\<close>

lemma parseDetections_Inr:
  assumes "parseDetections coerce p = Inr ds"
  shows "(ds \<noteq> [] \<and>
          map_then_filter
            (\<lambda>(index, b). inferenceDetection coerce p (inferFrameSize p) index b)
            (enumerate 0 (elements (get_prop p ''boxes''))) = Inr ds)
       \<or> (map_then_filter
            (\<lambda>(index, b). inferenceDetection coerce p (inferFrameSize p) index b)
            (enumerate 0 (elements (get_prop p ''boxes''))) = Inr [] \<and>
          map_then_filter
            (\<lambda>(index, c). candidateDetection coerce (inferFrameSize p) index c)
            (enumerate 0 (candidates p)) = Inr ds)"
proof (cases "truthy p")
  case True
  with assms show ?thesis
    by (auto simp: parseDetections_def buildDetections_result Let_def
             split: sum.splits if_splits)
next
  case False
  with assms have "ds = []" by (simp add: parseDetections_def)
  with falsy_no_entries [OF False] show ?thesis by simp
qed

text \<open>The result is no longer than the list it was made from.\<close>

lemma parseDetections_length:
  assumes "parseDetections coerce p = Inr ds"
  shows "length ds \<le> length (elements (get_prop p ''boxes''))
       \<or> length ds \<le> length (candidates p)"
  using parseDetections_Inr [OF assms] map_then_filter_length
  by (metis length_enumerate)

lemma parseDetections_member:
  assumes "parseDetections coerce p = Inr ds" and "d \<in> set ds"
  shows "(\<exists>i e. e \<in> set (elements (get_prop p ''boxes'')) \<and>
                 inferenceDetection coerce p (inferFrameSize p) i e = Inr (Some d))
       \<or> (\<exists>i e. e \<in> set (candidates p) \<and>
                 candidateDetection coerce (inferFrameSize p) i e = Inr (Some d))"
proof -
  from parseDetections_Inr [OF assms(1)] assms(2)
  consider "\<exists>a \<in> set (enumerate 0 (elements (get_prop p ''boxes''))).
              (\<lambda>(index, b). inferenceDetection coerce p (inferFrameSize p) index b) a = Inr (Some d)"
    | "\<exists>a \<in> set (enumerate 0 (candidates p)).
              (\<lambda>(index, c). candidateDetection coerce (inferFrameSize p) index c) a = Inr (Some d)"
    using map_then_filter_member by meson
  then show ?thesis
  proof cases
    case 1
    then show ?thesis by (auto simp: in_set_enumerate_eq)
  next
    case 2
    then show ?thesis by (auto simp: in_set_enumerate_eq)
  qed
qed

text \<open>An entry whose callback returns a detection has that detection in the result.\<close>

lemma box_entry_in_result:
  assumes "parseDetections coerce p = Inr ds"
    and "i < length (elements (get_prop p ''boxes''))"
    and "inferenceDetection coerce p (inferFrameSize p) i (elements (get_prop p ''boxes'') ! i)
           = Inr (Some d)"
  shows "d \<in> set ds"
proof -
  let ?f = "\<lambda>(index, b). inferenceDetection coerce p (inferFrameSize p) index b"
  let ?xs = "enumerate 0 (elements (get_prop p ''boxes''))"
  have mem: "(i, elements (get_prop p ''boxes'') ! i) \<in> set ?xs"
    using assms(2) by (simp add: in_set_enumerate_eq)
  from parseDetections_Inr [OF assms(1)] show ?thesis
  proof
    assume "ds \<noteq> [] \<and> map_then_filter ?f ?xs = Inr ds"
    then show ?thesis using map_then_filter_kept [of ?f ?xs ds, OF _ mem] assms(3) by simp
  next
    assume "map_then_filter ?f ?xs = Inr [] \<and>
      map_then_filter (\<lambda>(index, c). candidateDetection coerce (inferFrameSize p) index c)
        (enumerate 0 (candidates p)) = Inr ds"
    then have "d \<in> set []"
      using map_then_filter_kept [of ?f ?xs "[]", OF _ mem] assms(3) by simp
    then show ?thesis by simp
  qed
qed

lemma candidate_entry_in_result:
  assumes "parseDetections coerce p = Inr ds"
    and "buildDetectionsFromInference coerce p = Inr []"
    and "i < length (candidates p)"
    and "candidateDetection coerce (inferFrameSize p) i (candidates p ! i) = Inr (Some d)"
  shows "d \<in> set ds"
proof -
  let ?g = "\<lambda>(index, c). candidateDetection coerce (inferFrameSize p) index c"
  let ?ys = "enumerate 0 (candidates p)"
  have mem: "(i, candidates p ! i) \<in> set ?ys"
    using assms(3) by (simp add: in_set_enumerate_eq)
  have "truthy p"
  proof (rule ccontr)
    assume "\<not> truthy p"
    then have "candidates p = []" by (simp add: falsy_no_entries)
    with assms(3) show False by simp
  qed
  with assms(1,2) have "map_then_filter ?g ?ys = Inr ds"
    by (simp add: parseDetections_def Let_def)
  then show ?thesis using map_then_filter_kept [of ?g ?ys ds, OF _ mem] assms(4) by simp
qed

lemma inferenceDetection_box:
  "inferenceDetection coerce p fs i e = Inr (Some d) \<Longrightarrow>
     \<exists>bb. normalizeBBox coerce bb fs = Inr (Some (box d))"
  by (auto simp: inferenceDetection_def split: option.splits sum.splits if_splits)

lemma candidateDetection_box:
  "candidateDetection coerce fs i e = Inr (Some d) \<Longrightarrow>
     \<exists>bb. normalizeBBox coerce bb fs = Inr (Some (box d))"
  by (auto simp: candidateDetection_def split: option.splits sum.splits)



text \<open>
  Every coordinate of every detection lies in \<open>[0,1]\<close> when neither dimension of the
  frame is \<^verbatim>\<open>Infinity\<close>.
\<close>

lemma boxes_in_unit_when_frame_finite:
  assumes "parseDetections coerce p = Inr ds" and "d \<in> set ds"
    and "width (inferFrameSize p) \<noteq> JNum PInf" and "height (inferFrameSize p) \<noteq> JNum PInf"
  shows "in_unit (x (box d)) \<and> in_unit (y (box d))
       \<and> in_unit (width (box d)) \<and> in_unit (height (box d))"
  using parseDetections_member [OF assms(1,2)] normalizeBBox_in_unit [OF _ assms(3,4)]
  by (metis inferenceDetection_box candidateDetection_box)




text \<open>
  An array entry \<open>[a, b, c, d, \<dots>]\<close> of four numbers, none of them NaN, under a
  resolution \<open>[W, H]\<close> with \<open>W > 1\<close> and \<open>H > 1\<close>, no value being infinite together
  with its dimension, gives the box \<open>(a/W, b/H, c/W, d/H)\<close> with every component clamped
  to \<open>[0,1]\<close>, both as an element of \<^verbatim>\<open>boxes\<close> and as an element of the list of
  detections.
\<close>

lemma array_entry_scaled_by_resolution:
  assumes "get_prop p ''resolution'' = JArr (JNum W # JNum H # rest)"
    and "js_gt W (Fin 1)" "js_gt H (Fin 1)"
    and "a \<noteq> NaN" "b \<noteq> NaN" "c \<noteq> NaN" "d \<noteq> NaN"
    and "finite_num a \<or> finite_num W" "finite_num b \<or> finite_num H"
    and "finite_num c \<or> finite_num W" "finite_num d \<or> finite_num H"
    and "e = JArr (JNum a # JNum b # JNum c # JNum d # others)"
  shows "(\<exists>det. inferenceDetection coerce p (inferFrameSize p) i e = Inr (Some det)
                \<and> box det = scaled_box W H a b c d)
       \<and> (\<exists>det. candidateDetection coerce (inferFrameSize p) i e = Inr (Some det)
                \<and> box det = scaled_box W H a b c d)
       \<and> in_unit (clamp01 (js_div a W)) \<and> in_unit (clamp01 (js_div b H))
       \<and> in_unit (clamp01 (js_div c W)) \<and> in_unit (clamp01 (js_div d H))"
proof -
  have fs: "inferFrameSize p = \<lparr>width = JNum W, height = JNum H\<rparr>"
    using assms(1) by (rule inferFrameSize_resolution)
  have nb: "normalizeBBox coerce
              (Some \<lparr>width = JNum c, height = JNum d, x = JNum a, y = JNum b\<rparr>)
              \<lparr>width = JNum W, height = JNum H\<rparr> = Inr (Some (scaled_box W H a b c d))"
    using assms(2-7,10,11) by (rule normalizeBBox_scaled)
  have ex: "extractBoxFromCandidate coerce e =
              Inr (Some \<lparr>width = JNum c, height = JNum d, x = JNum a, y = JNum b\<rparr>)"
    unfolding assms(12) by (simp add: extractBoxFromCandidate_def nc_def nullish_def)
  have 1: "\<exists>det. inferenceDetection coerce p (inferFrameSize p) i e = Inr (Some det)
                \<and> box det = scaled_box W H a b c d"
    unfolding fs inferenceDetection_def assms(12) by (simp add: nb)
  have 2: "\<exists>det. candidateDetection coerce (inferFrameSize p) i e = Inr (Some det)
                \<and> box det = scaled_box W H a b c d"
    unfolding fs candidateDetection_def by (simp add: ex nb)
  have nn: "v \<noteq> NaN \<Longrightarrow> finite_num v \<or> finite_num V \<Longrightarrow> js_gt V (Fin 1)
              \<Longrightarrow> js_div v V \<noteq> NaN" for v V
    by (cases v; cases V) (auto simp: js_gt_def)
  show ?thesis
    using 1 2 assms(2-11) by (simp add: clamp01_in_unit nn)
qed

text \<open>
  An object that cannot be converted, where a width is expected, makes the whole call
  throw.
\<close>

lemma unconvertible_extent_throws:
  "parseDetections coerce
     (JObj [(''boxes'', JArr [JArr [JNum (Fin (1 / 4)), JNum (Fin (1 / 2)),
                                    JObj [(''toString'', JNum (Fin 1))], JNum (Fin (1 / 4))]])])
   = Inl TypeError"
  by (simp add: normalizer_defs)

text \<open>
  What becomes of an extracted box with a negative width or height, in any frame: it is
  normalized, with \<open>0\<close> for the negative extent, and both callbacks return a detection
  with that box.
\<close>

lemma negative_extent_normalized:
  assumes "extractBoxFromCandidate coerce e =
             Inr (Some \<lparr>width = JNum w, height = JNum h, x = JNum a, y = JNum c\<rparr>)"
    and "a \<noteq> NaN" "c \<noteq> NaN" "w \<noteq> NaN" "h \<noteq> NaN"
  shows "\<exists>nb. normalizeBBox coerce
                (Some \<lparr>width = JNum w, height = JNum h, x = JNum a, y = JNum c\<rparr>) fs
                = Inr (Some nb)
           \<and> normalizeValue (JNum a) (width fs) = Some (x nb)
           \<and> normalizeValue (JNum c) (height fs) = Some (y nb)
           \<and> normalizeValue (JNum (js_max w (Fin 0))) (width fs) = Some (width nb)
           \<and> normalizeValue (JNum (js_max h (Fin 0))) (height fs) = Some (height nb)
           \<and> (js_lt w (Fin 0) \<longrightarrow> width nb = Fin 0)
           \<and> (js_lt h (Fin 0) \<longrightarrow> height nb = Fin 0)
           \<and> (\<forall>i. \<exists>det. candidateDetection coerce fs i e = Inr (Some det) \<and> box det = nb)
           \<and> (\<forall>i q. \<exists>det. inferenceDetection coerce q fs i e = Inr (Some det)
                          \<and> box det = nb)"
proof -
  let ?b = "\<lparr>width = JNum w, height = JNum h, x = JNum a, y = JNum c\<rparr>"
  obtain nx ny nw nh where nx: "normalizeValue (JNum a) (width fs) = Some nx"
    and ny: "normalizeValue (JNum c) (height fs) = Some ny"
    and nw: "normalizeValue (JNum (js_max w (Fin 0))) (width fs) = Some nw"
    and nh: "normalizeValue (JNum (js_max h (Fin 0))) (height fs) = Some nh"
    using normalizeValue_Some_iff [of "JNum a" "width fs"]
      normalizeValue_Some_iff [of "JNum c" "height fs"]
      normalizeValue_Some_iff [of "JNum (js_max w (Fin 0))" "width fs"]
      normalizeValue_Some_iff [of "JNum (js_max h (Fin 0))" "height fs"]
      assms(2-5)
    by (auto simp: js_max_not_NaN)
  let ?nb = "\<lparr>width = nw, height = nh, x = nx, y = ny\<rparr>"
  have nb: "normalizeBBox coerce (Some ?b) fs = Inr (Some ?nb)"
    by (simp add: normalizeBBox_numbers nx ny nw nh)
  have w0: "js_lt w (Fin 0) \<Longrightarrow> nw = Fin 0"
    using nw normalizeValue_negative_clamped [of w "width fs"] by simp
  have h0: "js_lt h (Fin 0) \<Longrightarrow> nh = Fin 0"
    using nh normalizeValue_negative_clamped [of h "height fs"] by simp
  have cand: "\<exists>det. candidateDetection coerce fs i e = Inr (Some det) \<and> box det = ?nb" for i
    unfolding candidateDetection_def assms(1) by (simp add: nb)
  have inf: "\<exists>det. inferenceDetection coerce q fs i e = Inr (Some det) \<and> box det = ?nb" for i q
    unfolding inferenceDetection_def inference_bbox_is_extracted [OF assms(1)]
    by (simp add: nb)
  show ?thesis
  proof (intro exI [of _ ?nb] conjI impI allI)
    show "normalizeBBox coerce (Some ?b) fs = Inr (Some ?nb)" by (fact nb)
    show "normalizeValue (JNum a) (width fs) = Some (x ?nb)" by (simp add: nx)
    show "normalizeValue (JNum c) (height fs) = Some (y ?nb)" by (simp add: ny)
    show "normalizeValue (JNum (js_max w (Fin 0))) (width fs) = Some (width ?nb)"
      by (simp add: nw)
    show "normalizeValue (JNum (js_max h (Fin 0))) (height fs) = Some (height ?nb)"
      by (simp add: nh)
    show "width ?nb = Fin 0" if "js_lt w (Fin 0)" using w0 [OF that] by simp
    show "height ?nb = Fin 0" if "js_lt h (Fin 0)" using h0 [OF that] by simp
    show "\<exists>det. candidateDetection coerce fs i e = Inr (Some det) \<and> box det = ?nb" for i
      by (rule cand)
    show "\<exists>det. inferenceDetection coerce q fs i e = Inr (Some det) \<and> box det = ?nb" for i q
      by (rule inf)
  qed
qed

lemma parseDetections_bare_list:
  "parseDetections coerce (JArr [e]) =
     (case candidateDetection coerce (inferFrameSize (JArr [e])) 0 e of
        Inl err \<Rightarrow> Inl err
      | Inr None \<Rightarrow> Inr []
      | Inr (Some d) \<Rightarrow> Inr [d])"
  by (simp add: parseDetections_def buildDetectionsFromInference_def candidates_def
        enumerate_eq_zip Let_def split: sum.splits option.splits)

lemma parseDetections_single_box:
  "inferenceDetection coerce (JObj [(''boxes'', JArr [e])])
       (inferFrameSize (JObj [(''boxes'', JArr [e])])) 0 e = Inr (Some d) \<Longrightarrow>
     parseDetections coerce (JObj [(''boxes'', JArr [e])]) = Inr [d]"
  by (simp add: parseDetections_def buildDetectionsFromInference_def enumerate_eq_zip Let_def)

section \<open>The session: closing, unmounting, timers\<close>

lemma onclose_while_open_schedules_one_reconnect:
  assumes "i < length (sockets s)" and "sockets s ! i = OPEN"
  shows "timers (step s (Onclose i)) = timers s @ [3000]
       \<and> length (sockets (step s (Onclose i))) = length (sockets s)
       \<and> sockets (step s (Onclose i)) ! i = CLOSED
       \<and> \<not> connected (step s (Onclose i))"
  using assms by simp

lemma unmount_keeps_timers: "timers (step s Unmount) = timers s"
  by (simp split: option.splits)

lemma timeout_connects:
  "k < length (timers s) \<Longrightarrow>
     length (sockets (step s (Timeout k))) = Suc (length (sockets s))"
  by (simp add: connectWebSocket_def)

text \<open>Whatever the state, a timeout that was pending at the unmount still connects.\<close>

lemma unmount_does_not_cancel:
  assumes "k < length (timers s)"
  shows "length (sockets (step (step s Unmount) (Timeout k))) = Suc (length (sockets s))"
proof -
  have "length (sockets (step s Unmount)) = length (sockets s)"
    by (simp split: option.splits)
  moreover have "k < length (timers (step s Unmount))"
    using assms by (simp only: unmount_keeps_timers)
  ultimately show ?thesis
    using timeout_connects [of k "step s Unmount"] by simp
qed

section \<open>The properties\<close>

text \<open>
  C1. The payload
  \<^verbatim>\<open>{"boxes":[[100,50,40,40,0,0.91]],"labels":["person"],"resolution":[1280,720]}\<close>
  gives one detection, labelled \<^verbatim>\<open>person\<close>, whose box is
  \<open>(100/1280, 50/720, 40/1280, 40/720)\<close>, that is \<open>(0.078, 0.069, 0.031, 0.056)\<close> to
  three decimals. Its confidence is the fifth element of the tuple, the class id \<open>0\<close>,
  not the sixth, \<open>0.91\<close>.
\<close>

theorem documented_payload_confidence_is_class_id:
  fixes coerce :: "jsval \<Rightarrow> jsnum"
  defines "payload \<equiv> JObj
     [(''boxes'', JArr [JArr [JNum (Fin 100), JNum (Fin 50), JNum (Fin 40), JNum (Fin 40),
                              JNum (Fin 0), JNum (Fin (91 / 100))]]),
      (''labels'', JArr [JStr ''person'']),
      (''resolution'', JArr [JNum (Fin 1280), JNum (Fin 720)])]"
  shows "parseDetections coerce payload =
           Inr [\<lparr>label = JStr ''person'', confidence = JNum (Fin 0),
                 box = \<lparr>width = Fin (40 / 1280), height = Fin (40 / 720),
                        x = Fin (100 / 1280), y = Fin (50 / 720)\<rparr>\<rparr>]
         \<and> round3 (Fin (100 / 1280)) = Fin (78 / 1000)
         \<and> round3 (Fin (50 / 720)) = Fin (69 / 1000)
         \<and> round3 (Fin (40 / 1280)) = Fin (31 / 1000)
         \<and> round3 (Fin (40 / 720)) = Fin (56 / 1000)"
  unfolding payload_def by (simp add: normalizer_defs round3_def)

text \<open>
  C2. A close of the transport while the socket is open schedules one reconnect, 3000
  milliseconds later. Unmounting the component after that leaves the timeout pending:
  the cleanup closes the socket of \<^verbatim>\<open>wsRef\<close> and clears no timer, so the timeout
  fires and a new socket is made after the teardown.
\<close>

theorem reconnect_after_unmount:
  "sockets (run initial [Mount, Onopen 0]) = [OPEN]
   \<and> timers (run initial [Mount, Onopen 0, Onclose 0]) = [3000]
   \<and> sockets (run initial [Mount, Onopen 0, Onclose 0]) = [CLOSED]
   \<and> timers (run initial [Mount, Onopen 0, Onclose 0, Unmount]) = [3000]
   \<and> sockets (run initial [Mount, Onopen 0, Onclose 0, Unmount]) = [CLOSED]
   \<and> sockets (run initial [Mount, Onopen 0, Onclose 0, Unmount, Timeout 0])
       = [CLOSED, CONNECTING]
   \<and> timers (run initial [Mount, Onopen 0, Onclose 0, Unmount, Timeout 0]) = []"
  by (simp add: run_def initial_def connectWebSocket_def)

text \<open>
  C3. With the resolution \<^verbatim>\<open>[1e999, 1e999]\<close> (both \<^verbatim>\<open>Infinity\<close> once parsed) and a
  box whose \<open>x\<close> and \<open>y\<close> are \<^verbatim>\<open>1e999\<close> as well, the division gives NaN, the clamp
  keeps NaN, and the detection is returned with \<open>x\<close> and \<open>y\<close> NaN, outside \<open>[0,1]\<close>.
\<close>

theorem infinite_frame_gives_NaN_coordinates:
  fixes coerce :: "jsval \<Rightarrow> jsnum"
  defines "payload \<equiv> JObj
     [(''boxes'', JArr [JArr [JNum PInf, JNum PInf, JNum (Fin 10), JNum (Fin 10)]]),
      (''resolution'', JArr [JNum PInf, JNum PInf])]"
  shows "parseDetections coerce payload =
           Inr [\<lparr>label = JStr ''object-1'', confidence = JNull,
                 box = \<lparr>width = Fin 0, height = Fin 0, x = NaN, y = NaN\<rparr>\<rparr>]
         \<and> \<not> in_unit NaN"
  unfolding payload_def by (simp add: normalizer_defs in_unit_def)

text \<open>
  C4. The array entry \<^verbatim>\<open>[1e999, 50, 40, 40]\<close> has four numbers, none of them NaN, and
  the resolution \<^verbatim>\<open>[1e999, 720]\<close> has \<open>W > 1\<close> and \<open>H > 1\<close>. The box that comes
  back has \<open>x\<close> NaN: no value clamped to \<open>[0,1]\<close>, whatever \<open>x/W\<close> is taken to be.
  The other three components are \<open>50/720\<close>, \<open>40/W = 0\<close> and \<open>40/720\<close>, as stated.
\<close>

theorem infinite_width_resolution_gives_NaN_x:
  fixes coerce :: "jsval \<Rightarrow> jsnum"
  defines "payload \<equiv> JObj
     [(''boxes'', JArr [JArr [JNum PInf, JNum (Fin 50), JNum (Fin 40), JNum (Fin 40)]]),
      (''resolution'', JArr [JNum PInf, JNum (Fin 720)])]"
  shows "parseDetections coerce payload =
           Inr [\<lparr>label = JStr ''object-1'', confidence = JNull,
                 box = \<lparr>width = Fin 0, height = Fin (40 / 720), x = NaN, y = Fin (50 / 720)\<rparr>\<rparr>]
         \<and> is_real_number (JNum PInf) \<and> js_gt PInf (Fin 1) \<and> js_gt (Fin 720) (Fin 1)
         \<and> \<not> in_unit NaN"
  unfolding payload_def by (simp add: normalizer_defs in_unit_def)




text \<open>
  C6. The entry \<^verbatim>\<open>[0.25, 0.5, null, null]\<close> has no four numbers. As an element of
  \<^verbatim>\<open>boxes\<close> it is kept all the same: \<^verbatim>\<open>Math.max(null, 0)\<close> is \<open>0\<close>, so the box comes
  out with width and height \<open>0\<close>. As an element of \<^verbatim>\<open>detections\<close> the same entry is
  dropped, \<open>extractBoxFromCandidate\<close> testing the type of all four values.
\<close>

theorem null_extent_entry_is_kept:
  fixes coerce :: "jsval \<Rightarrow> jsnum"
  defines "e \<equiv> JArr [JNum (Fin (1 / 4)), JNum (Fin (1 / 2)), JNull, JNull]"
  shows "parseDetections coerce (JObj [(''boxes'', JArr [e])]) =
           Inr [\<lparr>label = JStr ''object-1'', confidence = JNull,
                 box = \<lparr>width = Fin 0, height = Fin 0, x = Fin (1 / 4), y = Fin (1 / 2)\<rparr>\<rparr>]
         \<and> parseDetections coerce (JObj [(''detections'', JArr [e])]) = Inr []
         \<and> extractBoxFromCandidate coerce e = Inr None"
  unfolding e_def by (simp add: normalizer_defs)

text \<open>
  C7. The corner-form entry \<^verbatim>\<open>{"x1":10,"y1":10,"x2":110,"y2":60}\<close> is extracted by
  subtraction to \<open>x = 10\<close>, \<open>y = 10\<close>, \<open>width = 100\<close>, \<open>height = 50\<close>; in a payload
  without a resolution (a bare list, or a list under \<^verbatim>\<open>detections\<close>,
  \<^verbatim>\<open>objects\<close> or \<^verbatim>\<open>boxes\<close>) the frame is the unit frame and every coordinate is
  clamped to \<open>1\<close>.
\<close>

theorem corner_entry_clamped_to_unit_box:
  fixes coerce :: "jsval \<Rightarrow> jsnum"
  defines "e \<equiv> JObj [(''x1'', JNum (Fin 10)), (''y1'', JNum (Fin 10)),
                      (''x2'', JNum (Fin 110)), (''y2'', JNum (Fin 60))]"
  defines "d \<equiv> \<lparr>label = JStr ''object-1'', confidence = JNull,
                 box = \<lparr>width = Fin 1, height = Fin 1, x = Fin 1, y = Fin 1\<rparr>\<rparr>"
  shows "extractBoxFromCandidate coerce e =
           Inr (Some \<lparr>width = JNum (Fin 100), height = JNum (Fin 50),
                      x = JNum (Fin 10), y = JNum (Fin 10)\<rparr>)
         \<and> parseDetections coerce (JArr [e]) = Inr [d]
         \<and> parseDetections coerce (JObj [(''detections'', JArr [e])]) = Inr [d]
         \<and> parseDetections coerce (JObj [(''objects'', JArr [e])]) = Inr [d]
         \<and> parseDetections coerce (JObj [(''boxes'', JArr [e])]) = Inr [d]"
  unfolding e_def d_def by (simp add: normalizer_defs)

text \<open>
  C8. In a payload with none of the fields that give a frame size (\<^verbatim>\<open>resolution\<close>,
  \<^verbatim>\<open>frame_width\<close>, \<^verbatim>\<open>image_width\<close>, \<^verbatim>\<open>width\<close> and the three for the height), a
  box whose four values lie in \<open>[0,1]\<close> is normalized to itself: by \<open>normalizeBBox\<close>
  under the frame of the payload, and for an entry in array form or with the fields
  \<^verbatim>\<open>x\<close>, \<^verbatim>\<open>y\<close>, \<^verbatim>\<open>width\<close>, \<^verbatim>\<open>height\<close> on both paths through the normalizer.
\<close>

theorem normalized_box_unchanged:
  assumes "\<forall>k \<in> {''resolution'', ''frame_width'', ''image_width'', ''width'',
                  ''frame_height'', ''image_height'', ''height''}. nullish (get_prop p k)"
    and "in_unit a" "in_unit b" "in_unit w" "in_unit h"
  shows "normalizeBBox coerce (Some \<lparr>width = JNum w, height = JNum h, x = JNum a, y = JNum b\<rparr>)
           (inferFrameSize p) = Inr (Some \<lparr>width = w, height = h, x = a, y = b\<rparr>)
       \<and> (\<exists>det. inferenceDetection coerce p (inferFrameSize p) i
                   (JArr (JNum a # JNum b # JNum w # JNum h # others)) = Inr (Some det)
                \<and> box det = \<lparr>width = w, height = h, x = a, y = b\<rparr>)
       \<and> (\<exists>det. candidateDetection coerce (inferFrameSize p) i
                   (JArr (JNum a # JNum b # JNum w # JNum h # others)) = Inr (Some det)
                \<and> box det = \<lparr>width = w, height = h, x = a, y = b\<rparr>)
       \<and> (\<exists>det. candidateDetection coerce (inferFrameSize p) i
                   (JObj [(''x'', JNum a), (''y'', JNum b),
                          (''width'', JNum w), (''height'', JNum h)]) = Inr (Some det)
                \<and> box det = \<lparr>width = w, height = h, x = a, y = b\<rparr>)"
proof -
  have fs: "inferFrameSize p = \<lparr>width = JNum (Fin 1), height = JNum (Fin 1)\<rparr>"
    using assms(1) by (rule inferFrameSize_default)
  have nb: "normalizeBBox coerce
              (Some \<lparr>width = JNum w, height = JNum h, x = JNum a, y = JNum b\<rparr>)
              \<lparr>width = JNum (Fin 1), height = JNum (Fin 1)\<rparr>
            = Inr (Some \<lparr>width = w, height = h, x = a, y = b\<rparr>)"
    using assms(2-5) by (rule normalizeBBox_unit)
  have nn: "a \<noteq> NaN" "b \<noteq> NaN" "w \<noteq> NaN" "h \<noteq> NaN"
    using assms(2-5) by (auto simp: in_unit_iff)
  have ex1: "extractBoxFromCandidate coerce (JArr (JNum a # JNum b # JNum w # JNum h # others))
             = Inr (Some \<lparr>width = JNum w, height = JNum h, x = JNum a, y = JNum b\<rparr>)"
    by (simp add: extractBoxFromCandidate_def nc_def nullish_def)
  have ex2: "extractBoxFromCandidate coerce
               (JObj [(''x'', JNum a), (''y'', JNum b), (''width'', JNum w), (''height'', JNum h)])
             = Inr (Some \<lparr>width = JNum w, height = JNum h, x = JNum a, y = JNum b\<rparr>)"
    using nn by (simp add: extractBoxFromCandidate_def nc_def nullish_def)
  show ?thesis
    unfolding fs by (simp add: nb ex1 ex2 inferenceDetection_def candidateDetection_def)
qed

text \<open>C8 at the box \<open>(0, 1, 0.5, 0.25)\<close> in a payload that only has \<^verbatim>\<open>boxes\<close>.\<close>

theorem normalized_box_unchanged_witness:
  "normalizeBBox coerce_nan
     (Some \<lparr>width = JNum (Fin (1 / 2)), height = JNum (Fin (1 / 4)),
            x = JNum (Fin 0), y = JNum (Fin 1)\<rparr>)
     (inferFrameSize (JObj [(''boxes'', JArr [])])) =
     Inr (Some \<lparr>width = Fin (1 / 2), height = Fin (1 / 4), x = Fin 0, y = Fin 1\<rparr>)
   \<and> (\<exists>det. inferenceDetection coerce_nan (JObj [(''boxes'', JArr [])])
               (inferFrameSize (JObj [(''boxes'', JArr [])])) 0
               (JArr [JNum (Fin 0), JNum (Fin 1), JNum (Fin (1 / 2)), JNum (Fin (1 / 4))])
               = Inr (Some det)
            \<and> box det = \<lparr>width = Fin (1 / 2), height = Fin (1 / 4), x = Fin 0, y = Fin 1\<rparr>)
   \<and> (\<exists>det. candidateDetection coerce_nan (inferFrameSize (JObj [(''boxes'', JArr [])])) 0
               (JArr [JNum (Fin 0), JNum (Fin 1), JNum (Fin (1 / 2)), JNum (Fin (1 / 4))])
               = Inr (Some det)
            \<and> box det = \<lparr>width = Fin (1 / 2), height = Fin (1 / 4), x = Fin 0, y = Fin 1\<rparr>)
   \<and> (\<exists>det. candidateDetection coerce_nan (inferFrameSize (JObj [(''boxes'', JArr [])])) 0
               (JObj [(''x'', JNum (Fin 0)), (''y'', JNum (Fin 1)),
                      (''width'', JNum (Fin (1 / 2))), (''height'', JNum (Fin (1 / 4)))])
               = Inr (Some det)
            \<and> box det = \<lparr>width = Fin (1 / 2), height = Fin (1 / 4), x = Fin 0, y = Fin 1\<rparr>)"
  by (rule normalized_box_unchanged [where others = "[]"])
     (simp_all add: nullish_def in_unit_def js_le_def)

text \<open>
  C9. When the object a box is read from has none of \<^verbatim>\<open>x\<close>, \<^verbatim>\<open>left\<close>,
  \<^verbatim>\<open>x_min\<close>, \<^verbatim>\<open>x1\<close>, \<^verbatim>\<open>y\<close>, \<^verbatim>\<open>top\<close>, \<^verbatim>\<open>y_min\<close>, \<^verbatim>\<open>y1\<close> but has
  \<^verbatim>\<open>cx\<close> and \<^verbatim>\<open>cy\<close> with a width and a height, the extracted box has \<^verbatim>\<open>cx\<close> and
  \<^verbatim>\<open>cy\<close> themselves as \<open>x\<close> and \<open>y\<close>: half the width or height is not subtracted.
\<close>

theorem centre_fields_used_as_corner:
  assumes "truthy c"
    and "nc (get_prop c ''bbox'') (nc (get_prop c ''box'')
           (nc (get_prop c ''rect'') (nc (get_prop c ''region'') c))) = JObj kvs"
    and "\<forall>k \<in> {''x'', ''left'', ''x_min'', ''x1'', ''y'', ''top'', ''y_min'', ''y1''}.
           nullish (get_prop (JObj kvs) k)"
    and "get_prop (JObj kvs) ''cx'' = JNum cx" "cx \<noteq> NaN"
    and "get_prop (JObj kvs) ''cy'' = JNum cy" "cy \<noteq> NaN"
    and "nc (get_prop (JObj kvs) ''width'') (get_prop (JObj kvs) ''w'') = JNum w" "w \<noteq> NaN"
    and "nc (get_prop (JObj kvs) ''height'') (get_prop (JObj kvs) ''h'') = JNum h" "h \<noteq> NaN"
  shows "extractBoxFromCandidate coerce c =
           Inr (Some \<lparr>width = JNum w, height = JNum h, x = JNum cx, y = JNum cy\<rparr>)"
proof -
  have xs: "nc (get_prop (JObj kvs) ''x'') (nc (get_prop (JObj kvs) ''left'')
              (nc (get_prop (JObj kvs) ''x_min'') (nc (get_prop (JObj kvs) ''x1'')
              (nc (get_prop (JObj kvs) ''cx'') (get_prop (JObj kvs) ''center_x''))))) = JNum cx"
    using assms(3,4) by (simp add: nc_def nullish_def)
  have ys: "nc (get_prop (JObj kvs) ''y'') (nc (get_prop (JObj kvs) ''top'')
              (nc (get_prop (JObj kvs) ''y_min'') (nc (get_prop (JObj kvs) ''y1'')
              (nc (get_prop (JObj kvs) ''cy'') (get_prop (JObj kvs) ''center_y''))))) = JNum cy"
    using assms(3,6) by (simp add: nc_def nullish_def)
  show ?thesis
    unfolding extractBoxFromCandidate_def Let_def assms(2) xs ys assms(8,10)
    using assms(1,5,7,9,11) by (simp add: nullish_def)
qed

text \<open>C9 at \<^verbatim>\<open>{"cx":100,"cy":80,"width":40,"height":20}\<close>: \<open>x\<close> is 100, not 80.\<close>

theorem centre_fields_used_as_corner_witness:
  "extractBoxFromCandidate coerce_nan
     (JObj [(''cx'', JNum (Fin 100)), (''cy'', JNum (Fin 80)),
            (''width'', JNum (Fin 40)), (''height'', JNum (Fin 20))]) =
     Inr (Some \<lparr>width = JNum (Fin 40), height = JNum (Fin 20),
                x = JNum (Fin 100), y = JNum (Fin 80)\<rparr>)"
  by (rule centre_fields_used_as_corner
        [where kvs = "[(''cx'', JNum (Fin 100)), (''cy'', JNum (Fin 80)),
                       (''width'', JNum (Fin 40)), (''height'', JNum (Fin 20))]"])
     (simp_all add: nc_def nullish_def)

text \<open>
  C10. An entry whose extracted box has a negative width or height is not dropped. The
  box is normalized: \<open>x\<close> and \<open>y\<close> go to \<open>normalizeValue\<close> as they are, width and
  height go there after \<^verbatim>\<open>Math.max(., 0)\<close>, and a negative one comes out as \<open>0\<close>.
  Both callbacks return a detection with that box, for the entry as a detection object
  and as an element of \<^verbatim>\<open>boxes\<close>; a call of \<open>parseDetections\<close> that returns has a
  detection with that box in its result, when the entry is among the \<^verbatim>\<open>boxes\<close>,
  and when it is among the candidates and the boxes gave nothing; and for the entry alone,
  as a bare list or under \<^verbatim>\<open>boxes\<close>, the call returns exactly one detection, with
  \<open>0\<close> for the negative extent.
\<close>

theorem negative_extent_becomes_zero:
  assumes "extractBoxFromCandidate coerce e =
             Inr (Some \<lparr>width = JNum w, height = JNum h, x = JNum a, y = JNum c\<rparr>)"
    and "a \<noteq> NaN" "c \<noteq> NaN" "w \<noteq> NaN" "h \<noteq> NaN"
    and "js_lt w (Fin 0) \<or> js_lt h (Fin 0)"
  shows "(\<exists>nb. normalizeBBox coerce
                (Some \<lparr>width = JNum w, height = JNum h, x = JNum a, y = JNum c\<rparr>) fs
                = Inr (Some nb)
           \<and> normalizeValue (JNum a) (width fs) = Some (x nb)
           \<and> normalizeValue (JNum c) (height fs) = Some (y nb)
           \<and> normalizeValue (JNum (js_max w (Fin 0))) (width fs) = Some (width nb)
           \<and> normalizeValue (JNum (js_max h (Fin 0))) (height fs) = Some (height nb)
           \<and> (js_lt w (Fin 0) \<longrightarrow> width nb = Fin 0)
           \<and> (js_lt h (Fin 0) \<longrightarrow> height nb = Fin 0)
           \<and> (\<exists>det. candidateDetection coerce fs i e = Inr (Some det) \<and> box det = nb)
           \<and> (\<exists>det. inferenceDetection coerce q fs i e = Inr (Some det) \<and> box det = nb)
           \<and> (fs = inferFrameSize p \<and> parseDetections coerce p = Inr ds
                \<and> e \<in> set (elements (get_prop p ''boxes''))
               \<longrightarrow> (\<exists>det \<in> set ds. box det = nb))
           \<and> (fs = inferFrameSize p \<and> parseDetections coerce p = Inr ds
                \<and> buildDetectionsFromInference coerce p = Inr [] \<and> e \<in> set (candidates p)
               \<longrightarrow> (\<exists>det \<in> set ds. box det = nb)))
       \<and> (\<exists>det. parseDetections coerce (JArr [e]) = Inr [det]
              \<and> (js_lt w (Fin 0) \<longrightarrow> width (box det) = Fin 0)
              \<and> (js_lt h (Fin 0) \<longrightarrow> height (box det) = Fin 0))
       \<and> (\<exists>det. parseDetections coerce (JObj [(''boxes'', JArr [e])]) = Inr [det]
              \<and> (js_lt w (Fin 0) \<longrightarrow> width (box det) = Fin 0)
              \<and> (js_lt h (Fin 0) \<longrightarrow> height (box det) = Fin 0))"
proof (intro conjI)
  from negative_extent_normalized [OF assms(1-5), of fs]
  obtain nb where nb: "normalizeBBox coerce
                (Some \<lparr>width = JNum w, height = JNum h, x = JNum a, y = JNum c\<rparr>) fs
                = Inr (Some nb)"
    "normalizeValue (JNum a) (width fs) = Some (x nb)"
    "normalizeValue (JNum c) (height fs) = Some (y nb)"
    "normalizeValue (JNum (js_max w (Fin 0))) (width fs) = Some (width nb)"
    "normalizeValue (JNum (js_max h (Fin 0))) (height fs) = Some (height nb)"
    "js_lt w (Fin 0) \<longrightarrow> width nb = Fin 0"
    "js_lt h (Fin 0) \<longrightarrow> height nb = Fin 0"
    and cand: "\<And>i. \<exists>det. candidateDetection coerce fs i e = Inr (Some det) \<and> box det = nb"
    and inf: "\<And>i q. \<exists>det. inferenceDetection coerce q fs i e = Inr (Some det) \<and> box det = nb"
    by blast
  have inB: "\<exists>det \<in> set ds. box det = nb"
    if "fs = inferFrameSize p" "parseDetections coerce p = Inr ds"
      "e \<in> set (elements (get_prop p ''boxes''))"
  proof -
    from that(3) obtain j where j: "j < length (elements (get_prop p ''boxes''))"
      and ej: "elements (get_prop p ''boxes'') ! j = e"
      by (auto simp: in_set_conv_nth)
    from inf [of p j] obtain det where
      det: "inferenceDetection coerce p fs j e = Inr (Some det)" "box det = nb"
      by blast
    with box_entry_in_result [OF that(2) j] that(1) ej have "det \<in> set ds" by simp
    with det(2) show ?thesis by blast
  qed
  have inC: "\<exists>det \<in> set ds. box det = nb"
    if "fs = inferFrameSize p" "parseDetections coerce p = Inr ds"
      "buildDetectionsFromInference coerce p = Inr []" "e \<in> set (candidates p)"
  proof -
    from that(4) obtain j where j: "j < length (candidates p)" and ej: "candidates p ! j = e"
      by (auto simp: in_set_conv_nth)
    from cand [of j] obtain det where
      det: "candidateDetection coerce fs j e = Inr (Some det)" "box det = nb"
      by blast
    with candidate_entry_in_result [OF that(2,3) j] that(1) ej have "det \<in> set ds" by simp
    with det(2) show ?thesis by blast
  qed
  show "\<exists>nb. normalizeBBox coerce
                (Some \<lparr>width = JNum w, height = JNum h, x = JNum a, y = JNum c\<rparr>) fs
                = Inr (Some nb)
           \<and> normalizeValue (JNum a) (width fs) = Some (x nb)
           \<and> normalizeValue (JNum c) (height fs) = Some (y nb)
           \<and> normalizeValue (JNum (js_max w (Fin 0))) (width fs) = Some (width nb)
           \<and> normalizeValue (JNum (js_max h (Fin 0))) (height fs) = Some (height nb)
           \<and> (js_lt w (Fin 0) \<longrightarrow> width nb = Fin 0)
           \<and> (js_lt h (Fin 0) \<longrightarrow> height nb = Fin 0)
           \<and> (\<exists>det. candidateDetection coerce fs i e = Inr (Some det) \<and> box det = nb)
           \<and> (\<exists>det. inferenceDetection coerce q fs i e = Inr (Some det) \<and> box det = nb)
           \<and> (fs = inferFrameSize p \<and> parseDetections coerce p = Inr ds
                \<and> e \<in> set (elements (get_prop p ''boxes''))
               \<longrightarrow> (\<exists>det \<in> set ds. box det = nb))
           \<and> (fs = inferFrameSize p \<and> parseDetections coerce p = Inr ds
                \<and> buildDetectionsFromInference coerce p = Inr [] \<and> e \<in> set (candidates p)
               \<longrightarrow> (\<exists>det \<in> set ds. box det = nb))"
  proof (intro exI [of _ nb] conjI impI)
    show "\<exists>det \<in> set ds. box det = nb"
      if "fs = inferFrameSize p \<and> parseDetections coerce p = Inr ds
            \<and> e \<in> set (elements (get_prop p ''boxes''))"
      using that inB by blast
    show "\<exists>det \<in> set ds. box det = nb"
      if "fs = inferFrameSize p \<and> parseDetections coerce p = Inr ds
            \<and> buildDetectionsFromInference coerce p = Inr [] \<and> e \<in> set (candidates p)"
      using that inC by blast
  qed (use nb cand inf in \<open>blast+\<close>)
next
  from negative_extent_normalized [OF assms(1-5), of "inferFrameSize (JArr [e])"]
  obtain nb where zw: "js_lt w (Fin 0) \<longrightarrow> width nb = Fin 0"
    and zh: "js_lt h (Fin 0) \<longrightarrow> height nb = Fin 0"
    and "\<forall>i. \<exists>det. candidateDetection coerce (inferFrameSize (JArr [e])) i e = Inr (Some det)
                    \<and> box det = nb"
    by blast
  then have "\<exists>det. candidateDetection coerce (inferFrameSize (JArr [e])) 0 e = Inr (Some det)
                    \<and> box det = nb"
    by (elim allE)
  with zw zh obtain det where
    "candidateDetection coerce (inferFrameSize (JArr [e])) 0 e = Inr (Some det)"
    and "js_lt w (Fin 0) \<longrightarrow> width (box det) = Fin 0"
    and "js_lt h (Fin 0) \<longrightarrow> height (box det) = Fin 0"
    by blast
  then show "\<exists>det. parseDetections coerce (JArr [e]) = Inr [det]
              \<and> (js_lt w (Fin 0) \<longrightarrow> width (box det) = Fin 0)
              \<and> (js_lt h (Fin 0) \<longrightarrow> height (box det) = Fin 0)"
    by (simp add: parseDetections_bare_list)
next
  let ?p = "JObj [(''boxes'', JArr [e])]"
  from negative_extent_normalized [OF assms(1-5), of "inferFrameSize ?p"]
  obtain nb where zw: "js_lt w (Fin 0) \<longrightarrow> width nb = Fin 0"
    and zh: "js_lt h (Fin 0) \<longrightarrow> height nb = Fin 0"
    and "\<forall>i q. \<exists>det. inferenceDetection coerce q (inferFrameSize ?p) i e = Inr (Some det)
                    \<and> box det = nb"
    by blast
  then have "\<exists>det. inferenceDetection coerce ?p (inferFrameSize ?p) 0 e = Inr (Some det)
                    \<and> box det = nb"
    by (elim allE)
  with zw zh obtain det where
    "inferenceDetection coerce ?p (inferFrameSize ?p) 0 e = Inr (Some det)"
    and "js_lt w (Fin 0) \<longrightarrow> width (box det) = Fin 0"
    and "js_lt h (Fin 0) \<longrightarrow> height (box det) = Fin 0"
    by blast
  then show "\<exists>det. parseDetections coerce ?p = Inr [det]
              \<and> (js_lt w (Fin 0) \<longrightarrow> width (box det) = Fin 0)
              \<and> (js_lt h (Fin 0) \<longrightarrow> height (box det) = Fin 0)"
    using parseDetections_single_box by blast
qed

text \<open>
  C10 at the corner pair \<^verbatim>\<open>{"x1":10,"y1":10,"x2":5,"y2":60}\<close>, whose \<^verbatim>\<open>x2\<close> is left
  of \<^verbatim>\<open>x1\<close>, in a frame of 100 by 100, under \<^verbatim>\<open>boxes\<close> and under
  \<^verbatim>\<open>detections\<close>: the width \<open>-5\<close> comes out as \<open>0\<close> in the list returned.
\<close>

theorem negative_extent_becomes_zero_witness:
  "extractBoxFromCandidate coerce_nan
     (JObj [(''x1'', JNum (Fin 10)), (''y1'', JNum (Fin 10)),
            (''x2'', JNum (Fin 5)), (''y2'', JNum (Fin 60))]) =
     Inr (Some \<lparr>width = JNum (Fin (- 5)), height = JNum (Fin 50),
                x = JNum (Fin 10), y = JNum (Fin 10)\<rparr>)
   \<and> js_lt (Fin (- 5)) (Fin 0)
   \<and> parseDetections coerce_nan
       (JObj [(''boxes'', JArr [JObj [(''x1'', JNum (Fin 10)), (''y1'', JNum (Fin 10)),
                                      (''x2'', JNum (Fin 5)), (''y2'', JNum (Fin 60))]]),
              (''resolution'', JArr [JNum (Fin 100), JNum (Fin 100)])]) =
     Inr [\<lparr>label = JStr ''object-1'', confidence = JNull,
           box = \<lparr>width = Fin 0, height = Fin (1 / 2), x = Fin (1 / 10), y = Fin (1 / 10)\<rparr>\<rparr>]
   \<and> parseDetections coerce_nan
       (JObj [(''detections'', JArr [JObj [(''x1'', JNum (Fin 10)), (''y1'', JNum (Fin 10)),
                                      (''x2'', JNum (Fin 5)), (''y2'', JNum (Fin 60))]]),
              (''resolution'', JArr [JNum (Fin 100), JNum (Fin 100)])]) =
     Inr [\<lparr>label = JStr ''object-1'', confidence = JNull,
           box = \<lparr>width = Fin 0, height = Fin (1 / 2), x = Fin (1 / 10), y = Fin (1 / 10)\<rparr>\<rparr>]"
  using negative_extent_becomes_zero
    [of coerce_nan
        "JObj [(''x1'', JNum (Fin 10)), (''y1'', JNum (Fin 10)),
               (''x2'', JNum (Fin 5)), (''y2'', JNum (Fin 60))]"
        "Fin (- 5)" "Fin 50" "Fin 10" "Fin 10"
        "\<lparr>width = JNum (Fin 100), height = JNum (Fin 100)\<rparr>" 0
        "JObj [(''boxes'', JArr [JObj [(''x1'', JNum (Fin 10)), (''y1'', JNum (Fin 10)),
                                      (''x2'', JNum (Fin 5)), (''y2'', JNum (Fin 60))]]),
              (''resolution'', JArr [JNum (Fin 100), JNum (Fin 100)])]"
        "JObj [(''boxes'', JArr [JObj [(''x1'', JNum (Fin 10)), (''y1'', JNum (Fin 10)),
                                      (''x2'', JNum (Fin 5)), (''y2'', JNum (Fin 60))]]),
              (''resolution'', JArr [JNum (Fin 100), JNum (Fin 100)])]"
        "[\<lparr>label = JStr ''object-1'', confidence = JNull,
           box = \<lparr>width = Fin 0, height = Fin (1 / 2), x = Fin (1 / 10), y = Fin (1 / 10)\<rparr>\<rparr>]"]
  by (simp add: normalizer_defs)

end
